theory Spec2Isabelle
  imports Complex_Main "HOL-Library.Multiset"
begin

section \<open>MahaVastu zonal balance and Prakriti analysis (main.py)\<close>

text \<open>
  The script main.py is one straight-line pipeline: it loads 16 zone values, derives the
  three balance lines, writes one remark per zone, sums the zones of every Prakriti
  group, turns the sums into percentages and ranks the groups.

  Numbers: the script computes on Python floats. Here a number is the real number the
  float stands for, and \<open>+\<close>, \<open>/\<close>, \<open>*\<close> are exact; rounding, infinities and the
  not-a-number of binary floating point are not part of this model. Comparisons
  (\<open><\<close>, \<open>>\<close>) are those of the source. The one place where a missing value matters,
  the spreadsheet loader, has a cell type of its own with an explicit \<open>NaN\<close>.

  A Python dict keeps its insertion order, so a dict is an association list with
  distinct keys, in insertion order. Every exception of the source is a value of
  \<open>py_error\<close>.
\<close>

subsection \<open>Constants of the module\<close>

datatype py_error = ZeroDivisionError | ValueError | KeyError

definition zones :: "string list" where
  "zones =
     [''N'', ''NNE'', ''NE'', ''ENE'',
      ''E'', ''ESE'', ''SE'', ''SSE'',
      ''S'', ''SSW'', ''SW'', ''WSW'',
      ''W'', ''WNW'', ''NW'', ''NNW'']"

definition prakriti_map :: "(string \<times> string list) list" where
  "prakriti_map =
     [(''Fire'', [''E'', ''ESE'', ''SE'', ''SSE'', ''S'', ''SSW'']),
      (''Water'', [''NNW'', ''N'', ''NNE'', ''NE'', ''ENE'']),
      (''Air'', [''SW'', ''WSW'', ''W'', ''WNW'', ''NW''])]"

subsection \<open>Python builtins used by the script\<close>

text \<open>\<open>sum(xs)\<close> starts from 0 and adds the items from left to right.\<close>

definition py_sum :: "real list \<Rightarrow> real" where
  "py_sum xs = foldl (+) 0 xs"

text \<open>
  \<open>max(xs)\<close> raises ValueError on an empty sequence; otherwise it keeps the first item
  and replaces it by every later item that is strictly greater. \<open>min\<close> is the mirror
  image.
\<close>

fun py_max :: "real list \<Rightarrow> py_error + real" where
  "py_max [] = Inl ValueError"
| "py_max (x # xs) = Inr (foldl (\<lambda>m item. if item > m then item else m) x xs)"

fun py_min :: "real list \<Rightarrow> py_error + real" where
  "py_min [] = Inl ValueError"
| "py_min (x # xs) = Inr (foldl (\<lambda>m item. if item < m then item else m) x xs)"

text \<open>
  \<open>sorted(xs, key=k, reverse=True)\<close>: the list is reversed, sorted by a stable sort in
  ascending key order, and reversed again, which is how the interpreter keeps the sort
  stable under \<open>reverse\<close>.
\<close>

definition py_sorted_reverse :: "('a \<Rightarrow> real) \<Rightarrow> 'a list \<Rightarrow> 'a list" where
  "py_sorted_reverse k xs = rev (sort_key k (rev xs))"

text \<open>\<open>sep.join(xs)\<close>\<close>

fun join :: "string \<Rightarrow> string list \<Rightarrow> string" where
  "join sep [] = []"
| "join sep [x] = x"
| "join sep (x # y # ys) = x @ sep @ join sep (y # ys)"

subsection \<open>Zone data\<close>

type_synonym zone_data = "(string \<times> real) list"

text \<open>\<open>areas = list(zone_data.values())\<close>\<close>

definition areas :: "zone_data \<Rightarrow> real list" where
  "areas zd = map snd zd"

subsection \<open>Balance lines (lines 86 to 88)\<close>

record balance_lines =
  LOB :: real
  ULOB :: real
  LLOB :: real

text \<open>
  \<open>LOB = sum(areas) / len(areas)\<close> raises ZeroDivisionError when there is no value;
  the two lines after it are then never reached.
\<close>

definition balance :: "real list \<Rightarrow> py_error + balance_lines" where
  "balance ar =
     (if length ar = 0 then Inl ZeroDivisionError
      else
        let lob = py_sum ar / real (length ar) in
        case py_max ar of
          Inl e \<Rightarrow> Inl e
        | Inr mx \<Rightarrow>
            (case py_min ar of
               Inl e \<Rightarrow> Inl e
             | Inr mn \<Rightarrow>
                 Inr \<lparr>LOB = lob, ULOB = (lob + mx) / 2, LLOB = (lob + mn) / 2\<rparr>))"

subsection \<open>Remarks (lines 96 to 104)\<close>

definition remark :: "balance_lines \<Rightarrow> real \<Rightarrow> string" where
  "remark b v =
     (if v > ULOB b then ''High''
      else if v < LLOB b then ''Low''
      else ''Balanced'')"


subsection \<open>Prakriti strength, percentage and ranking (lines 110 to 132)\<close>

text \<open>
  \<open>sum(zone_data[z] for z in zlist)\<close>: the running total starts at 0; a zone that is
  not a key of the dict raises KeyError.
\<close>

fun zone_sum :: "zone_data \<Rightarrow> string list \<Rightarrow> real \<Rightarrow> py_error + real" where
  "zone_sum zd [] acc = Inr acc"
| "zone_sum zd (z # zlist) acc =
     (case map_of zd z of
        None \<Rightarrow> Inl KeyError
      | Some v \<Rightarrow> zone_sum zd zlist (acc + v))"

fun strength_loop :: "zone_data \<Rightarrow> (string \<times> string list) list \<Rightarrow> py_error + (string \<times> real) list" where
  "strength_loop zd [] = Inr []"
| "strength_loop zd ((p, zlist) # rest) =
     (case zone_sum zd zlist 0 of
        Inl e \<Rightarrow> Inl e
      | Inr s \<Rightarrow>
          (case strength_loop zd rest of
             Inl e \<Rightarrow> Inl e
           | Inr ps \<Rightarrow> Inr ((p, s) # ps)))"

definition prakriti_strength :: "zone_data \<Rightarrow> py_error + (string \<times> real) list" where
  "prakriti_strength zd = strength_loop zd prakriti_map"

definition total_prakriti :: "(string \<times> real) list \<Rightarrow> real" where
  "total_prakriti ps = py_sum (map snd ps)"



definition prakriti_sorted :: "(string \<times> real) list \<Rightarrow> (string \<times> real) list" where
  "prakriti_sorted ps = py_sorted_reverse snd ps"

definition final_prakriti :: "(string \<times> real) list \<Rightarrow> string" where
  "final_prakriti srt = join ''-'' (map fst srt)"

subsection \<open>The numeric core as one run (lines 78 to 132)\<close>



subsection \<open>Loading from a spreadsheet (lines 60 to 70)\<close>

text \<open>
  The table is what \<open>read_excel\<close> returned: its rows, each with the label of the Zone
  column and the cell of the Area column. A cell is a number or empty; an empty cell is
  pandas' missing value \<open>NaN\<close>.

  \<open>set_index("Zone").reindex(zones)\<close> builds a frame with exactly the labels of
  \<open>zones\<close>, in that order: a label of the table keeps its row, a label the table does
  not have gets a row of missing values, and rows with other labels are dropped.
  \<open>reindex\<close> raises ValueError when the labels of the table are not unique.
  \<open>df["Area"].to_dict()\<close> then maps every label of the frame to its cell.
\<close>

datatype cell = Num real | NaN

definition load_excel :: "(string \<times> cell) list \<Rightarrow> py_error + (string \<times> cell) list" where
  "load_excel rows =
     (if \<not> distinct (map fst rows) then Inl ValueError
      else Inr (map (\<lambda>z. (z, case map_of rows z of None \<Rightarrow> NaN | Some c \<Rightarrow> c)) zones))"

subsection \<open>Sample inputs\<close>

definition sample_areas :: "real list" where
  "sample_areas = [120, 80, 95, 100, 110, 90, 105, 100, 60, 100, 100, 100, 100, 140, 100, 100]"


definition all_100 :: zone_data where
  "all_100 = map (\<lambda>z. (z, 100)) zones"


definition table_without_SW :: "(string \<times> cell) list" where
  "table_without_SW = map (\<lambda>z. (z, Num 100)) (filter (\<lambda>z. z \<noteq> ''SW'') zones)"

section \<open>Properties\<close>

subsection \<open>Builtins against their mathematical meaning\<close>

lemma foldl_add_sum_list: "foldl (+) a xs = a + sum_list (xs :: real list)"
  by (induction xs arbitrary: a) simp_all

lemma py_sum_sum_list: "py_sum xs = sum_list xs"
  by (simp add: py_sum_def foldl_add_sum_list)

lemma foldl_keep_greater:
  "foldl (\<lambda>m item. if item > m then item else m) a xs = Max (set (a # xs))"
  for a :: real
proof (induction xs arbitrary: a)
  case Nil
  show ?case by simp
next
  case (Cons x xs)
  have step: "(if x > a then x else a) = max a x" by (simp add: max_def)
  have "Max (set (max a x # xs)) = Max (set (a # x # xs))"
  proof (cases "xs = []")
    case True
    then show ?thesis by simp
  next
    case False
    then show ?thesis by (simp add: max.assoc)
  qed
  with Cons [of "max a x"] step show ?case by simp
qed

lemma foldl_keep_less:
  "foldl (\<lambda>m item. if item < m then item else m) a xs = Min (set (a # xs))"
  for a :: real
proof (induction xs arbitrary: a)
  case Nil
  show ?case by simp
next
  case (Cons x xs)
  have step: "(if x < a then x else a) = min a x" by (simp add: min_def)
  have "Min (set (min a x # xs)) = Min (set (a # x # xs))"
  proof (cases "xs = []")
    case True
    then show ?thesis by simp
  next
    case False
    then show ?thesis by (simp add: min.assoc)
  qed
  with Cons [of "min a x"] step show ?case by simp
qed

lemma py_max_Max: "ar \<noteq> [] \<Longrightarrow> py_max ar = Inr (Max (set ar))"
  by (cases ar) (simp_all add: foldl_keep_greater del: foldl_Cons)

lemma py_min_Min: "ar \<noteq> [] \<Longrightarrow> py_min ar = Inr (Min (set ar))"
  by (cases ar) (simp_all add: foldl_keep_less del: foldl_Cons)

lemma balance_nonempty:
  assumes "ar \<noteq> []"
  shows "balance ar =
    Inr \<lparr>LOB = sum_list ar / real (length ar),
         ULOB = (sum_list ar / real (length ar) + Max (set ar)) / 2,
         LLOB = (sum_list ar / real (length ar) + Min (set ar)) / 2\<rparr>"
  using assms by (simp add: balance_def py_max_Max py_min_Min py_sum_sum_list Let_def)

subsection \<open>Order of the balance lines\<close>

lemma sum_list_le_Max: "sum_list ar \<le> real (length ar) * Max (set ar)" if "ar \<noteq> []" for ar :: "real list"
proof -
  have "\<forall>x\<in>set xs. x \<le> M \<Longrightarrow> sum_list xs \<le> real (length xs) * M" for xs :: "real list" and M
    by (induction xs) (auto simp: algebra_simps)
  then show ?thesis by simp
qed

lemma Min_le_sum_list: "real (length ar) * Min (set ar) \<le> sum_list ar" if "ar \<noteq> []" for ar :: "real list"
proof -
  have "\<forall>x\<in>set xs. M \<le> x \<Longrightarrow> real (length xs) * M \<le> sum_list xs" for xs :: "real list" and M
    by (induction xs) (auto simp: algebra_simps)
  then show ?thesis by simp
qed

lemma mean_le_Max: "ar \<noteq> [] \<Longrightarrow> sum_list ar / real (length ar) \<le> Max (set ar)" for ar :: "real list"
  using sum_list_le_Max [of ar] by (simp add: pos_divide_le_eq mult.commute)

lemma Min_le_mean: "ar \<noteq> [] \<Longrightarrow> Min (set ar) \<le> sum_list ar / real (length ar)" for ar :: "real list"
  using Min_le_sum_list [of ar] by (simp add: pos_le_divide_eq mult.commute)

lemma midpoint_bounds:
  fixes m lo hi :: real
  assumes "lo \<le> m" "m \<le> hi"
  shows "lo \<le> (m + lo) / 2 \<and> (m + lo) / 2 \<le> m \<and> m \<le> (m + hi) / 2 \<and> (m + hi) / 2 \<le> hi"
  using assms by (auto simp: field_simps)

lemma balance_order:
  assumes "ar \<noteq> []" "balance ar = Inr b"
  shows "Min (set ar) \<le> LLOB b \<and> LLOB b \<le> LOB b \<and> LOB b \<le> ULOB b \<and> ULOB b \<le> Max (set ar)"
proof -
  from assms balance_nonempty [OF assms(1)]
  have b: "b = \<lparr>LOB = sum_list ar / real (length ar),
         ULOB = (sum_list ar / real (length ar) + Max (set ar)) / 2,
         LLOB = (sum_list ar / real (length ar) + Min (set ar)) / 2\<rparr>" by simp
  define m where "m = sum_list ar / real (length ar)"
  from mean_le_Max [OF assms(1)] Min_le_mean [OF assms(1)]
  have "Min (set ar) \<le> m" and "m \<le> Max (set ar)" by (simp_all add: m_def)
  from midpoint_bounds [OF this]
  show ?thesis unfolding b m_def by simp
qed






subsection \<open>Strengths of a dataset with the 16 zones as keys\<close>

lemma dataset_explicit:
  assumes "map fst zd = zones"
  shows "\<exists>v1 v2 v3 v4 v5 v6 v7 v8 v9 v10 v11 v12 v13 v14 v15 v16. zd =
     [(''N'', v1), (''NNE'', v2), (''NE'', v3), (''ENE'', v4),
      (''E'', v5), (''ESE'', v6), (''SE'', v7), (''SSE'', v8),
      (''S'', v9), (''SSW'', v10), (''SW'', v11), (''WSW'', v12),
      (''W'', v13), (''WNW'', v14), (''NW'', v15), (''NNW'', v16)]"
  using assms unfolding zones_def by (auto simp: map_eq_Cons_conv)

lemma strengths_explicit:
  "prakriti_strength
     [(''N'', v1), (''NNE'', v2), (''NE'', v3), (''ENE'', v4),
      (''E'', v5), (''ESE'', v6), (''SE'', v7), (''SSE'', v8),
      (''S'', v9), (''SSW'', v10), (''SW'', v11), (''WSW'', v12),
      (''W'', v13), (''WNW'', v14), (''NW'', v15), (''NNW'', v16)] =
   Inr [(''Fire'', 0 + v5 + v6 + v7 + v8 + v9 + v10),
        (''Water'', 0 + v16 + v1 + v2 + v3 + v4),
        (''Air'', 0 + v11 + v12 + v13 + v14 + v15)]"
  by (simp add: prakriti_strength_def prakriti_map_def)

lemma strength_total:
  assumes "map fst zd = zones"
  shows "\<exists>f w a. prakriti_strength zd = Inr [(''Fire'', f), (''Water'', w), (''Air'', a)] \<and>
           f + w + a = sum_list (areas zd)"
proof -
  from dataset_explicit [OF assms] obtain v1 v2 v3 v4 v5 v6 v7 v8 v9 v10 v11 v12 v13 v14 v15 v16
    where zd: "zd =
     [(''N'', v1), (''NNE'', v2), (''NE'', v3), (''ENE'', v4),
      (''E'', v5), (''ESE'', v6), (''SE'', v7), (''SSE'', v8),
      (''S'', v9), (''SSW'', v10), (''SW'', v11), (''WSW'', v12),
      (''W'', v13), (''WNW'', v14), (''NW'', v15), (''NNW'', v16)]" by blast
  have "sum_list (areas zd) = (0 + v5 + v6 + v7 + v8 + v9 + v10) + (0 + v16 + v1 + v2 + v3 + v4)
      + (0 + v11 + v12 + v13 + v14 + v15)"
    unfolding zd areas_def by simp
  with strengths_explicit [of v1 v2 v3 v4 v5 v6 v7 v8 v9 v10 v11 v12 v13 v14 v15 v16]
  show ?thesis unfolding zd [symmetric] by metis
qed

lemma total_three: "total_prakriti [(p, f), (q, w), (r, a)] = f + w + a"
  by (simp add: total_prakriti_def py_sum_def)

lemma strength_shape:
  assumes "map fst zd = zones" and "prakriti_strength zd = Inr ps"
  shows "\<exists>f w a. ps = [(''Fire'', f), (''Water'', w), (''Air'', a)] \<and>
           total_prakriti ps = sum_list (areas zd)"
  using strength_total [OF assms(1)] assms(2) by (auto simp: total_three)



subsection \<open>The descending stable sort\<close>

lemma py_sorted_reverse_desc:
  "sorted_wrt (\<lambda>x y. k x \<ge> k y) (py_sorted_reverse k xs)"
proof -
  have "sorted (map k (sort_key k (rev xs)))" by (rule sorted_sort_key)
  then have "sorted_wrt (\<lambda>x y. k x \<le> k y) (sort_key k (rev xs))"
    by (simp add: sorted_map)
  then show ?thesis by (simp add: py_sorted_reverse_def sorted_wrt_rev)
qed

lemma py_sorted_reverse_mset: "mset (py_sorted_reverse k xs) = mset xs"
  by (simp add: py_sorted_reverse_def)

lemma py_sorted_reverse_stable:
  "filter (\<lambda>x. k x = s) (py_sorted_reverse k xs) = filter (\<lambda>x. k x = s) xs"
  by (simp add: py_sorted_reverse_def rev_filter [symmetric] sort_key_stable)

lemma join_three: "join sep [a, b, c] = a @ sep @ b @ sep @ c"
  by simp

subsection \<open>The sample inputs, evaluated\<close>



lemma all_100_keys: "map fst all_100 = zones"
  by (simp add: all_100_def comp_def)

lemma all_100_strength:
  "prakriti_strength all_100 = Inr [(''Fire'', 600), (''Water'', 500), (''Air'', 500)]"
  by (simp add: all_100_def zones_def prakriti_strength_def prakriti_map_def)



subsection \<open>The spreadsheet loader\<close>

lemma map_of_tabulate:
  "z \<in> set zs \<Longrightarrow> map_of (map (\<lambda>z. (z, g z)) zs) z = Some (g z)"
  by (induction zs) auto

lemma load_excel_distinct:
  assumes "distinct (map fst rows)"
  shows "load_excel rows =
     Inr (map (\<lambda>z. (z, case map_of rows z of None \<Rightarrow> NaN | Some c \<Rightarrow> c)) zones)"
  using assms by (simp add: load_excel_def)

subsection \<open>Balance calculator and classifier\<close>




text \<open>
  C2. With the balance lines computed from a dataset of 16 values, a value is remarked
  "High" exactly when it is greater than ULOB, "Low" exactly when it is less than LLOB,
  and "Balanced" in every other case; a value equal to ULOB or equal to LLOB is
  "Balanced".
\<close>

theorem remark_strict:
  assumes "length ar = 16" and "balance ar = Inr b"
  shows "(remark b v = ''High'' \<longleftrightarrow> v > ULOB b) \<and>
         (remark b v = ''Low'' \<longleftrightarrow> v < LLOB b) \<and>
         (remark b v = ''Balanced'' \<longleftrightarrow> \<not> v > ULOB b \<and> \<not> v < LLOB b) \<and>
         remark b (ULOB b) = ''Balanced'' \<and>
         remark b (LLOB b) = ''Balanced''"
proof -
  from assms have ne: "ar \<noteq> []" by auto
  from balance_order [OF ne assms(2)] have "LLOB b \<le> ULOB b" by simp
  then show ?thesis by (auto simp: remark_def)
qed

theorem remark_strict_witness:
  "length sample_areas = 16 \<and>
   balance sample_areas = Inr \<lparr>LOB = 100, ULOB = 120, LLOB = 80\<rparr> \<and>
   remark \<lparr>LOB = 100, ULOB = 120, LLOB = 80\<rparr> 120 = ''Balanced'' \<and>
   remark \<lparr>LOB = 100, ULOB = 120, LLOB = 80\<rparr> 80 = ''Balanced'' \<and>
   remark \<lparr>LOB = 100, ULOB = 120, LLOB = 80\<rparr> 140 = ''High'' \<and>
   remark \<lparr>LOB = 100, ULOB = 120, LLOB = 80\<rparr> 60 = ''Low''"
proof -
  have len: "length sample_areas = 16" by (simp add: sample_areas_def)
  have bal: "balance sample_areas = Inr \<lparr>LOB = 100, ULOB = 120, LLOB = 80\<rparr>"
    using balance_nonempty [of sample_areas] by (simp add: sample_areas_def)
  from remark_strict [OF len bal, of 140] remark_strict [OF len bal, of 60]
    remark_strict [OF len bal, of 120] len bal
  show ?thesis by simp
qed








subsection \<open>Loader\<close>

text \<open>
  C4, as stated, fails on the code. The claim: when a required zone (for example "SW")
  is absent from the table, the spreadsheet loader fails with MissingZone and produces no
  dataset. On the table that has every zone but "SW" the loader returns a dataset of 16
  entries, with the missing value \<open>NaN\<close> for "SW".
\<close>

theorem load_excel_missing_zone_counterexample:
  "''SW'' \<notin> fst ` set table_without_SW \<and>
   load_excel table_without_SW =
     Inr [(''N'', Num 100), (''NNE'', Num 100), (''NE'', Num 100), (''ENE'', Num 100),
          (''E'', Num 100), (''ESE'', Num 100), (''SE'', Num 100), (''SSE'', Num 100),
          (''S'', Num 100), (''SSW'', Num 100), (''SW'', NaN), (''WSW'', Num 100),
          (''W'', Num 100), (''WNW'', Num 100), (''NW'', Num 100), (''NNW'', Num 100)]"
  by (simp add: table_without_SW_def zones_def load_excel_def)

text \<open>
  C4, amended. On a table with unique zone labels the spreadsheet loader never fails: it
  returns a dataset whose keys are the 16 zones in canonical order, where a zone absent
  from the table has the missing value \<open>NaN\<close> and a zone present in the table has the
  cell of its row.
\<close>

theorem load_excel_fills_missing:
  assumes "distinct (map fst rows)"
  shows "\<exists>zd. load_excel rows = Inr zd \<and> map fst zd = zones \<and>
           (\<forall>z\<in>set zones. z \<notin> fst ` set rows \<longrightarrow> map_of zd z = Some NaN) \<and>
           (\<forall>z\<in>set zones. \<forall>c. (z, c) \<in> set rows \<longrightarrow> map_of zd z = Some c)"
proof -
  define g where "g = (\<lambda>z. case map_of rows z of None \<Rightarrow> NaN | Some c \<Rightarrow> c)"
  define zd where "zd = map (\<lambda>z. (z, g z)) zones"
  have 1: "load_excel rows = Inr zd"
    unfolding zd_def g_def by (rule load_excel_distinct [OF assms])
  have 2: "map fst zd = zones" by (simp add: zd_def comp_def)
  have 3: "map_of zd z = Some NaN" if "z \<in> set zones" and "z \<notin> fst ` set rows" for z
  proof -
    from that(2) have "map_of rows z = None" by (simp add: map_of_eq_None_iff)
    then have "g z = NaN" by (simp add: g_def)
    with map_of_tabulate [OF that(1), of g] show ?thesis by (simp add: zd_def)
  qed
  have 4: "map_of zd z = Some c" if "z \<in> set zones" and "(z, c) \<in> set rows" for z c
  proof -
    from assms that(2) have "map_of rows z = Some c" by simp
    then have "g z = c" by (simp add: g_def)
    with map_of_tabulate [OF that(1), of g] show ?thesis by (simp add: zd_def)
  qed
  from 1 2 3 4 show ?thesis by blast
qed

theorem load_excel_fills_missing_witness:
  "distinct (map fst table_without_SW) \<and>
   ''SW'' \<in> set zones \<and> ''SW'' \<notin> fst ` set table_without_SW \<and>
   ''N'' \<in> set zones \<and> (''N'', Num 100) \<in> set table_without_SW \<and>
   (\<exists>zd. load_excel table_without_SW = Inr zd \<and> map fst zd = zones \<and>
      map_of zd ''SW'' = Some NaN \<and> map_of zd ''N'' = Some (Num 100))"
proof -
  have d: "distinct (map fst table_without_SW)" by (simp add: table_without_SW_def zones_def)
  have sw: "''SW'' \<in> set zones" by (simp add: zones_def)
  have nsw: "''SW'' \<notin> fst ` set table_without_SW" by (simp add: table_without_SW_def zones_def)
  have n: "''N'' \<in> set zones" by (simp add: zones_def)
  have nr: "(''N'', Num 100) \<in> set table_without_SW" by (simp add: table_without_SW_def zones_def)
  from load_excel_fills_missing [OF d] obtain zd where zd: "load_excel table_without_SW = Inr zd"
    "map fst zd = zones"
    "\<forall>z\<in>set zones. z \<notin> fst ` set table_without_SW \<longrightarrow> map_of zd z = Some NaN"
    "\<forall>z\<in>set zones. \<forall>c. (z, c) \<in> set table_without_SW \<longrightarrow> map_of zd z = Some c" by blast
  from zd(3) sw nsw have a: "map_of zd ''SW'' = Some NaN" by blast
  from zd(4) n nr have b: "map_of zd ''N'' = Some (Num 100)" by blast
  from d sw nsw n nr zd(1,2) a b show ?thesis by blast
qed

subsection \<open>Elemental aggregator\<close>





text \<open>
  C7. The ranking lists the three groups by descending strength and is a rearrangement of
  them; groups of equal strength keep the order of their declaration (Fire, Water, Air);
  the label is the three ranked names joined by "-", strongest first.
\<close>

theorem ranking_descending_stable:
  assumes "map fst zd = zones" and "prakriti_strength zd = Inr ps"
  shows "map fst ps = [''Fire'', ''Water'', ''Air''] \<and>
         sorted_wrt (\<lambda>x y. snd x \<ge> snd y) (prakriti_sorted ps) \<and>
         mset (prakriti_sorted ps) = mset ps \<and>
         filter (\<lambda>x. snd x = s) (prakriti_sorted ps) = filter (\<lambda>x. snd x = s) ps \<and>
         (\<exists>a b c. map fst (prakriti_sorted ps) = [a, b, c] \<and>
            final_prakriti (prakriti_sorted ps) = a @ ''-'' @ b @ ''-'' @ c)"
proof -
  from strength_shape [OF assms] obtain f w a
    where ps: "ps = [(''Fire'', f), (''Water'', w), (''Air'', a)]" by blast
  have len: "length (map fst (prakriti_sorted ps)) = 3"
    by (simp add: prakriti_sorted_def py_sorted_reverse_def ps)
  then obtain x y z where xyz: "map fst (prakriti_sorted ps) = [x, y, z]"
    by (auto simp: length_Suc_conv numeral_3_eq_3)
  then have lab: "final_prakriti (prakriti_sorted ps) = x @ ''-'' @ y @ ''-'' @ z"
    unfolding final_prakriti_def by (simp only: join_three)
  have names: "\<exists>a b c. map fst (prakriti_sorted ps) = [a, b, c] \<and>
            final_prakriti (prakriti_sorted ps) = a @ ''-'' @ b @ ''-'' @ c"
  proof (intro exI conjI)
    show "map fst (prakriti_sorted ps) = [x, y, z]" by (fact xyz)
    show "final_prakriti (prakriti_sorted ps) = x @ ''-'' @ y @ ''-'' @ z" by (fact lab)
  qed
  have decl: "map fst ps = [''Fire'', ''Water'', ''Air'']" by (simp add: ps)
  have desc: "sorted_wrt (\<lambda>x y. snd x \<ge> snd y) (prakriti_sorted ps)"
    unfolding prakriti_sorted_def by (rule py_sorted_reverse_desc)
  have perm: "mset (prakriti_sorted ps) = mset ps"
    unfolding prakriti_sorted_def by (rule py_sorted_reverse_mset)
  have stab: "filter (\<lambda>x. snd x = s) (prakriti_sorted ps) = filter (\<lambda>x. snd x = s) ps"
    unfolding prakriti_sorted_def by (rule py_sorted_reverse_stable)
  from decl desc perm stab names show ?thesis by (intro conjI)
qed

theorem ranking_descending_stable_witness:
  "map fst all_100 = zones \<and>
   prakriti_strength all_100 = Inr [(''Fire'', 600), (''Water'', 500), (''Air'', 500)] \<and>
   prakriti_sorted [(''Fire'', 600), (''Water'', 500), (''Air'', 500)] =
     [(''Fire'', 600), (''Water'', 500), (''Air'', 500)] \<and>
   filter (\<lambda>x. snd x = 500) (prakriti_sorted [(''Fire'', 600), (''Water'', 500), (''Air'', 500)]) =
     [(''Water'', 500), (''Air'', 500)] \<and>
   final_prakriti (prakriti_sorted [(''Fire'', 600), (''Water'', 500), (''Air'', 500)]) =
     ''Fire-Water-Air''"
proof -
  have srt: "prakriti_sorted [(''Fire'', 600), (''Water'', 500), (''Air'', 500)] =
     [(''Fire'', 600), (''Water'', 500), (''Air'', 500 :: real)]"
    by (simp add: prakriti_sorted_def py_sorted_reverse_def)
  have lab: "final_prakriti [(''Fire'', 600), (''Water'', 500), (''Air'', 500)] = ''Fire-Water-Air''"
    by (simp add: final_prakriti_def)
  from ranking_descending_stable [OF all_100_keys all_100_strength, of 500]
    all_100_keys all_100_strength srt lab
  show ?thesis by simp
qed



end
